theory Spec2Isabelle
  imports Complex_Main
begin

section \<open>Python values and errors\<close>

text \<open>
  The notebooks are Python 3 scripts. A Python \<open>str\<close> is modelled as \<open>string\<close>, whose
  characters are the code points below 256; \<open>int\<close> is the unbounded \<open>int\<close>; a finite
  Python \<open>float\<close> is modelled by the real number it stands for, so \<open>/\<close>, \<open>sin\<close>, \<open>cos\<close>
  and \<open>pi\<close> are the exact real operations and rounding is outside the model.
  The only exception the modelled code raises is \<open>ValueError\<close>: from \<open>int(s, 16)\<close>, and
  from \<open>math.sin\<close> and \<open>math.cos\<close> of an infinity.
\<close>

datatype error = ValueError

subsection \<open>The built-ins behind \<open>hexToRGB\<close>: \<open>str.strip\<close>, slicing, \<open>int(s, 16)\<close>\<close>

text \<open>\<open>s.strip(chars)\<close>: drop from both ends every character that occurs in \<open>chars\<close>.\<close>

definition strip :: "string \<Rightarrow> string \<Rightarrow> string" where
  "strip chars s =
     rev (dropWhile (\<lambda>c. c \<in> set chars) (rev (dropWhile (\<lambda>c. c \<in> set chars) s)))"

text \<open>\<open>s[i:j]\<close> for indices \<open>0 \<le> i \<le> j\<close>: a slice past the end is cut short, never an error.\<close>

definition slice :: "nat \<Rightarrow> nat \<Rightarrow> string \<Rightarrow> string" where
  "slice i j s = take (j - i) (drop i s)"

text \<open>
  The characters \<open>int()\<close> skips around a literal: tab, line feed, vertical tab, form feed,
  carriage return, space, and of the code points from 128 to 255 the two Unicode spaces
  U+0085 and U+00A0.
\<close>

definition int_space :: "char \<Rightarrow> bool" where
  "int_space c = (let n = (of_char c :: nat) in (9 \<le> n \<and> n \<le> 13) \<or> n = 32 \<or> n = 133 \<or> n = 160)"

text \<open>
  The value of a character as a digit: \<open>0-9\<close> are 0 to 9, \<open>a-z\<close> and \<open>A-Z\<close> are 10 to 35,
  every other character is 37, which is no digit in any base.
\<close>

definition digit_value :: "char \<Rightarrow> nat" where
  "digit_value c =
     (let n = (of_char c :: nat) in
      if 48 \<le> n \<and> n \<le> 57 then n - 48
      else if 97 \<le> n \<and> n \<le> 122 then n - 87
      else if 65 \<le> n \<and> n \<le> 90 then n - 55
      else 37)"

text \<open>
  The digit scan of \<open>int(s, base)\<close>: digits of the base with single underscores between
  them. It stops at the first other character and returns the digit values read and the
  rest of the string; two underscores in a row or an underscore before the stop fail
  (\<open>None\<close>). The flag says whether the previous character was an underscore.
\<close>

fun scan_digits :: "nat \<Rightarrow> bool \<Rightarrow> string \<Rightarrow> (nat list \<times> string) option" where
  "scan_digits base prev_us [] = (if prev_us then None else Some ([], []))"
| "scan_digits base prev_us (c # cs) =
     (if c = CHR ''_'' then (if prev_us then None else scan_digits base True cs)
      else if digit_value c < base then
        (case scan_digits base False cs of
           None \<Rightarrow> None
         | Some (ds, rest) \<Rightarrow> Some (digit_value c # ds, rest))
      else if prev_us then None
      else Some ([], c # cs))"

definition digits_value :: "nat \<Rightarrow> nat list \<Rightarrow> nat" where
  "digits_value base ds = foldl (\<lambda>acc d. acc * base + d) 0 ds"

text \<open>An optional sign in front of the digits; no space may follow it.\<close>

fun take_sign :: "string \<Rightarrow> bool \<times> string" where
  "take_sign [] = (False, [])"
| "take_sign (c # cs) =
     (if c = CHR ''+'' then (False, cs)
      else if c = CHR ''-'' then (True, cs)
      else (False, c # cs))"

text \<open>An optional \<open>0x\<close> or \<open>0X\<close> in base 16; one underscore is allowed right after it.\<close>

fun take_prefix16 :: "string \<Rightarrow> string" where
  "take_prefix16 (c0 # c1 # cs) =
     (if c0 = CHR ''0'' \<and> (c1 = CHR ''x'' \<or> c1 = CHR ''X'') then
        (case cs of
           [] \<Rightarrow> []
         | u # cs' \<Rightarrow> if u = CHR ''_'' then cs' else u # cs')
      else c0 # c1 # cs)"
| "take_prefix16 s = s"

text \<open>
  \<open>int(s, 16)\<close>: surrounding space is skipped, then sign, prefix and digits; the literal
  may not start with an underscore, must hold at least one digit, and nothing but space
  may follow the digits. Everything else raises \<open>ValueError\<close>.
\<close>

definition int16 :: "string \<Rightarrow> error + int" where
  "int16 s =
     (let (neg, body) = take_sign (dropWhile int_space s);
          lit = take_prefix16 body
      in case lit of
           [] \<Rightarrow> Inl ValueError
         | c # _ \<Rightarrow>
             if c = CHR ''_'' then Inl ValueError
             else (case scan_digits 16 False lit of
                     None \<Rightarrow> Inl ValueError
                   | Some (ds, rest) \<Rightarrow>
                       if ds = [] then Inl ValueError
                       else if dropWhile int_space rest \<noteq> [] then Inl ValueError
                       else Inr ((if neg then - 1 else 1) * int (digits_value 16 ds))))"

section \<open>The colour utility \<open>hexToRGB\<close>\<close>

text \<open>
  \<^verbatim>\<open>def hexToRGB(h):
    return list(float(int(h.strip('#')[i:i+2], 16))/255.0 for i in (0, 2, 4))\<close>

  One element of the generator, for a given \<open>i\<close>:
\<close>

definition channel :: "string \<Rightarrow> nat \<Rightarrow> error + real" where
  "channel h i =
     (case int16 (slice i (i + 2) (strip ''#'' h)) of
        Inl e \<Rightarrow> Inl e
      | Inr n \<Rightarrow> Inr (real_of_int n / 255))"

text \<open>\<open>list(...)\<close> draws the elements in order; the first exception ends the call.\<close>

fun collect :: "(nat \<Rightarrow> error + real) \<Rightarrow> nat list \<Rightarrow> error + real list" where
  "collect f [] = Inr []"
| "collect f (i # is) =
     (case f i of
        Inl e \<Rightarrow> Inl e
      | Inr x \<Rightarrow> (case collect f is of Inl e \<Rightarrow> Inl e | Inr xs \<Rightarrow> Inr (x # xs)))"

definition hexToRGB :: "string \<Rightarrow> error + real list" where
  "hexToRGB h = collect (channel h) [0, 2, 4]"

section \<open>The light-position utility \<open>sphereToCart\<close>\<close>

text \<open>
  \<^verbatim>\<open>def sphereToCart(t, p):
    from math import sin, cos, pi
    t,p = pi*t/180.0, pi*p/180.0
    return [sin(p)*cos(t), sin(t), cos(p)*cos(t)]\<close>
\<close>

definition sphereToCart :: "real \<Rightarrow> real \<Rightarrow> real list" where
  "sphereToCart t p =
     (let (t, p) = (pi * t / 180, pi * p / 180)
      in [sin p * cos t, sin t, cos p * cos t])"

subsection \<open>\<open>sphereToCart\<close> on Python floats\<close>

text \<open>
  The definition above reads the function over the reals. Called with Python floats, the
  same body can raise: a float is a finite number, an infinity or NaN, \<open>pi*t\<close> becomes an
  infinity when it leaves the range of the doubles, and \<open>math.sin\<close> and \<open>math.cos\<close> raise
  \<open>ValueError\<close> (math domain error) on an infinity.
\<close>

datatype pyfloat = Finite real | PosInf | NegInf | NaN

text \<open>
  The float for an exact result \<open>x\<close> of an operation: an infinity when \<open>x\<close> rounds beyond
  the largest double, that is from \<open>2^1024 - 2^970\<close> on; otherwise \<open>x\<close> itself.
\<close>

definition float_of_real :: "real \<Rightarrow> pyfloat" where
  "float_of_real x =
     (if 2 ^ 1024 - 2 ^ 970 \<le> x then PosInf
      else if x \<le> - (2 ^ 1024 - 2 ^ 970) then NegInf
      else Finite x)"

text \<open>\<open>a * b\<close> on floats. NaN gives NaN, and so does an infinity times zero.\<close>

fun fmul :: "pyfloat \<Rightarrow> pyfloat \<Rightarrow> pyfloat" where
  "fmul NaN b = NaN"
| "fmul a NaN = NaN"
| "fmul (Finite a) (Finite b) = float_of_real (a * b)"
| "fmul (Finite a) PosInf = (if a = 0 then NaN else if 0 < a then PosInf else NegInf)"
| "fmul (Finite a) NegInf = (if a = 0 then NaN else if 0 < a then NegInf else PosInf)"
| "fmul PosInf (Finite b) = (if b = 0 then NaN else if 0 < b then PosInf else NegInf)"
| "fmul NegInf (Finite b) = (if b = 0 then NaN else if 0 < b then NegInf else PosInf)"
| "fmul PosInf PosInf = PosInf"
| "fmul PosInf NegInf = NegInf"
| "fmul NegInf PosInf = NegInf"
| "fmul NegInf NegInf = PosInf"

text \<open>\<open>a / 180.0\<close> on floats.\<close>

fun div_180 :: "pyfloat \<Rightarrow> pyfloat" where
  "div_180 (Finite a) = Finite (a / 180)"
| "div_180 a = a"

text \<open>\<open>math.sin\<close> and \<open>math.cos\<close>: NaN gives NaN, an infinity raises.\<close>

fun math_sin :: "pyfloat \<Rightarrow> error + pyfloat" where
  "math_sin (Finite x) = Inr (Finite (sin x))"
| "math_sin NaN = Inr NaN"
| "math_sin x = Inl ValueError"

fun math_cos :: "pyfloat \<Rightarrow> error + pyfloat" where
  "math_cos (Finite x) = Inr (Finite (cos x))"
| "math_cos NaN = Inr NaN"
| "math_cos x = Inl ValueError"

text \<open>
  The body of \<open>sphereToCart\<close> on floats. The list elements are evaluated from left to
  right: \<open>sin(p)\<close>, \<open>cos(t)\<close>, \<open>sin(t)\<close>, \<open>cos(p)\<close>; the first exception ends the call.
\<close>

definition sphereToCart_float :: "pyfloat \<Rightarrow> pyfloat \<Rightarrow> error + pyfloat list" where
  "sphereToCart_float t p =
     (let (t, p) = (div_180 (fmul (Finite pi) t), div_180 (fmul (Finite pi) p))
      in case math_sin p of
           Inl e \<Rightarrow> Inl e
         | Inr sp \<Rightarrow>
             (case math_cos t of
                Inl e \<Rightarrow> Inl e
              | Inr ct \<Rightarrow>
                  (case math_sin t of
                     Inl e \<Rightarrow> Inl e
                   | Inr st \<Rightarrow>
                       (case math_cos p of
                          Inl e \<Rightarrow> Inl e
                        | Inr cp \<Rightarrow> Inr [fmul sp ct, st, fmul cp ct]))))"

section \<open>The ParaView session the notebooks configure\<close>

text \<open>
  The rendering engine is not part of the repository: the notebooks only assign properties
  of its proxy objects and call its methods. The model keeps what the notebook code itself
  determines: the property values it has assigned (the configuration), and, for every
  piece of code, the requests it sends to the engine, in order. What the engine computes
  on a request (meshes, images) is outside the model.

  A proxy object (\<open>contour\<close>, \<open>renV\<close>, \<open>light1\<close>, ...) is identified by a reference.
\<close>

type_synonym ref = nat

datatype pyval =
    PyNone
  | PyInt int
  | PyFloat pyfloat
  | PyStr string
  | PyList "pyval list"
  | PyRef ref

datatype call =
    Create ref string
  | SetAttr ref string pyval
  | UpdatePipelineCall ref

record session =
  props :: "ref \<times> string \<rightharpoonup> pyval"
  next_ref :: ref

text \<open>\<open>obj.name = v\<close> on a proxy: the property takes the value; one request.\<close>

definition setattr :: "ref \<Rightarrow> string \<Rightarrow> pyval \<Rightarrow> session \<Rightarrow> session \<times> call list" where
  "setattr obj name v s = (s\<lparr>props := (props s)((obj, name) \<mapsto> v)\<rparr>, [SetAttr obj name v])"

text \<open>\<open>obj.UpdatePipeline()\<close>: one request to the engine; no property is assigned.\<close>

definition UpdatePipeline :: "ref \<Rightarrow> session \<Rightarrow> session \<times> call list" where
  "UpdatePipeline obj s = (s, [UpdatePipelineCall obj])"

text \<open>
  \<open>Contour(Input=src)\<close>: the engine makes a new proxy, and the keyword argument is
  assigned to it as a property.
\<close>

definition Contour :: "ref \<Rightarrow> session \<Rightarrow> ref \<times> session \<times> call list" where
  "Contour src s =
     (let obj = next_ref s;
          (s1, c1) = setattr obj ''Input'' (PyRef src) (s\<lparr>next_ref := Suc obj\<rparr>)
      in (obj, s1, Create obj ''Contour'' # c1))"

subsection \<open>The isovalue callback\<close>

text \<open>
  \<^verbatim>\<open>def iso(isoval):
    contour.Isosurfaces = [isoval]
    contour.UpdatePipeline()\<close>

  \<open>contour\<close> is a global of the notebook; the model takes the proxy it is bound to as a
  parameter. The function has no \<open>return\<close>, so the call yields \<open>None\<close>.
\<close>

definition iso :: "ref \<Rightarrow> pyval \<Rightarrow> session \<Rightarrow> pyval \<times> session \<times> call list" where
  "iso contour isoval s =
     (let (s1, c1) = setattr contour ''Isosurfaces'' (PyList [isoval]) s;
          (s2, c2) = UpdatePipeline contour s1
      in (PyNone, s2, c1 @ c2))"

subsection \<open>The two places that build a contour filter\<close>

text \<open>
  First notebook, with \<open>dataName = 'CTHead'\<close>:
  \<^verbatim>\<open>contour = Contour(Input=trivprod)
contour.ContourBy = ['POINTS', dataName]
contour.Isosurfaces = [1627]
contour.UpdatePipeline()\<close>
\<close>

definition dataName :: string where
  "dataName = ''CTHead''"

definition head_contour :: "ref \<Rightarrow> session \<Rightarrow> ref \<times> session \<times> call list" where
  "head_contour trivprod s =
     (let (contour, s1, c1) = Contour trivprod s;
          (s2, c2) = setattr contour ''ContourBy'' (PyList [PyStr ''POINTS'', PyStr dataName]) s1;
          (s3, c3) = setattr contour ''Isosurfaces'' (PyList [PyInt 1627]) s2;
          (s4, c4) = UpdatePipeline contour s3
      in (contour, s4, c1 @ c2 @ c3 @ c4))"

text \<open>
  Second notebook:
  \<^verbatim>\<open>contour = Contour(Input=wavelet)
contour.ContourBy = ['POINTS', 'RTData']
contour.Isosurfaces = [157]\<close>
\<close>

definition wavelet_contour :: "ref \<Rightarrow> session \<Rightarrow> ref \<times> session \<times> call list" where
  "wavelet_contour wavelet s =
     (let (contour, s1, c1) = Contour wavelet s;
          (s2, c2) = setattr contour ''ContourBy'' (PyList [PyStr ''POINTS'', PyStr ''RTData'']) s1;
          (s3, c3) = setattr contour ''Isosurfaces'' (PyList [PyInt 157]) s2
      in (contour, s3, c1 @ c2 @ c3))"

text \<open>The values a sequence of requests assigns to the property of a given name, in order.\<close>

fun assigned :: "string \<Rightarrow> call list \<Rightarrow> pyval list" where
  "assigned name [] = []"
| "assigned name (SetAttr obj n v # cs) =
     (if n = name then v # assigned name cs else assigned name cs)"
| "assigned name (c # cs) = assigned name cs"

subsection \<open>The light callbacks\<close>

text \<open>
  \<^verbatim>\<open>def setDirLight(light, theta, phi, col, lum):
    light.Position = sphereToCart(theta,phi)
    light.DiffuseColor = hexToRGB(col)
    light.Intensity = lum\<close>

  The angles are Python floats (the sliders' values, or the literals of a direct call).
  The statements run in order; an exception raised by \<open>sphereToCart\<close> or by \<open>hexToRGB\<close>
  ends the call there, with the assignments made so far in place.
\<close>

definition setDirLight ::
  "ref \<Rightarrow> pyfloat \<Rightarrow> pyfloat \<Rightarrow> string \<Rightarrow> pyval \<Rightarrow> session \<Rightarrow> (error + pyval) \<times> session \<times> call list" where
  "setDirLight light theta phi col lum s =
     (case sphereToCart_float theta phi of
        Inl e \<Rightarrow> (Inl e, s, [])
      | Inr pos \<Rightarrow>
          (let (s1, c1) = setattr light ''Position'' (PyList (map PyFloat pos)) s
           in case hexToRGB col of
                Inl e \<Rightarrow> (Inl e, s1, c1)
              | Inr rgb \<Rightarrow>
                  (let (s2, c2) = setattr light ''DiffuseColor''
                                    (PyList (map (\<lambda>x. PyFloat (Finite x)) rgb)) s1;
                       (s3, c3) = setattr light ''Intensity'' lum s2
                   in (Inr PyNone, s3, c1 @ c2 @ c3))))"

text \<open>
  \<^verbatim>\<open>def setPtLight(light, x, y, z, col, lum):
    light.Position = [x,y,z]
    light.DiffuseColor = hexToRGB(col)
    light.Intensity = lum\<close>
\<close>

definition setPtLight ::
  "ref \<Rightarrow> pyval \<Rightarrow> pyval \<Rightarrow> pyval \<Rightarrow> string \<Rightarrow> pyval \<Rightarrow> session \<Rightarrow> (error + pyval) \<times> session \<times> call list" where
  "setPtLight light x y z col lum s =
     (let (s1, c1) = setattr light ''Position'' (PyList [x, y, z]) s
      in case hexToRGB col of
           Inl e \<Rightarrow> (Inl e, s1, c1)
         | Inr rgb \<Rightarrow>
             (let (s2, c2) = setattr light ''DiffuseColor''
                               (PyList (map (\<lambda>x. PyFloat (Finite x)) rgb)) s1;
                  (s3, c3) = setattr light ''Intensity'' lum s2
              in (Inr PyNone, s3, c1 @ c2 @ c3)))"

section \<open>The image that holds the CT volume\<close>

text \<open>
  \<^verbatim>\<open>voldims = [256,256,113]
vtkimg = vtk.vtkImageData()
vtkimg.SetDimensions(voldims)
vtkimg.SetExtent([0,voldims[0]-1, 0,voldims[1]-1, 0,voldims[2]-1])
vtkimg.SetSpacing([1.0/voldims[0],1.0/voldims[1],1.0/voldims[2]])
vtkimg.SetOrigin([-0.5,-0.5,-0.5])\<close>

  The image is a record of the four settings; each setter stores its argument. The
  indices 0, 1, 2 into \<open>voldims\<close> are within its three elements.
\<close>

record vtkImageData =
  Dimensions :: "int list"
  Extent :: "int list"
  Spacing :: "real list"
  Origin :: "real list"

definition voldims :: "int list" where
  "voldims = [256, 256, 113]"

definition SetDimensions :: "int list \<Rightarrow> vtkImageData \<Rightarrow> vtkImageData" where
  "SetDimensions d img = img\<lparr>Dimensions := d\<rparr>"

definition SetExtent :: "int list \<Rightarrow> vtkImageData \<Rightarrow> vtkImageData" where
  "SetExtent e img = img\<lparr>Extent := e\<rparr>"

definition SetSpacing :: "real list \<Rightarrow> vtkImageData \<Rightarrow> vtkImageData" where
  "SetSpacing sp img = img\<lparr>Spacing := sp\<rparr>"

definition SetOrigin :: "real list \<Rightarrow> vtkImageData \<Rightarrow> vtkImageData" where
  "SetOrigin og img = img\<lparr>Origin := og\<rparr>"

text \<open>The four calls, on the image \<open>vtk.vtkImageData()\<close> returned.\<close>

definition vtkimg :: "vtkImageData \<Rightarrow> vtkImageData" where
  "vtkimg img =
     SetOrigin [- 0.5, - 0.5, - 0.5]
       (SetSpacing [1 / real_of_int (voldims ! 0), 1 / real_of_int (voldims ! 1),
                    1 / real_of_int (voldims ! 2)]
          (SetExtent [0, voldims ! 0 - 1, 0, voldims ! 1 - 1, 0, voldims ! 2 - 1]
             (SetDimensions voldims img)))"

section \<open>Properties of \<open>hexToRGB\<close>\<close>

text \<open>A hexadecimal digit is a character whose digit value is below 16: \<open>0-9\<close>, \<open>a-f\<close>, \<open>A-F\<close>.\<close>

lemma hex_digit_not_special:
  assumes "digit_value c < 16"
  shows "c \<noteq> CHR ''#''" and "c \<noteq> CHR ''+''" and "c \<noteq> CHR ''-''" and "c \<noteq> CHR ''_''"
    and "c \<noteq> CHR ''x''" and "c \<noteq> CHR ''X''" and "\<not> int_space c"
  using assms by (auto simp: digit_value_def int_space_def Let_def)

lemma int16_two_digits:
  assumes "digit_value a < 16" and "digit_value b < 16"
  shows "int16 [a, b] = Inr (int (16 * digit_value a + digit_value b))"
  using assms hex_digit_not_special[OF assms(1)] hex_digit_not_special[OF assms(2)]
  by (simp add: int16_def digits_value_def)

lemma strip_hash_Cons: "strip ''#'' (CHR ''#'' # s) = strip ''#'' s"
  by (simp add: strip_def)

lemma strip_hash_snoc: "strip ''#'' (s @ ''#'') = strip ''#'' s"
proof (cases "\<forall>c\<in>set s. c = CHR ''#''")
  case True
  then have "\<forall>c\<in>set (s @ ''#''). c \<in> set ''#''" and "\<forall>c\<in>set s. c \<in> set ''#''"
    by simp_all
  then have "dropWhile (\<lambda>c. c \<in> set ''#'') (s @ ''#'') = []"
    and "dropWhile (\<lambda>c. c \<in> set ''#'') s = []"
    by (simp_all only: dropWhile_eq_Nil_conv)
  then show ?thesis by (simp only: strip_def rev.simps dropWhile.simps)
next
  case False
  then obtain x where "x \<in> set s" and "x \<notin> set ''#''"
    by auto
  then have "dropWhile (\<lambda>c. c \<in> set ''#'') (s @ ''#'') = dropWhile (\<lambda>c. c \<in> set ''#'') s @ ''#''"
    by (rule dropWhile_append1)
  then show ?thesis by (simp add: strip_def)
qed

lemma strip_hash_six:
  assumes "digit_value a < 16" and "digit_value f < 16"
  shows "strip ''#'' [a, b, c, d, e, f] = [a, b, c, d, e, f]"
  using hex_digit_not_special(1)[OF assms(1)] hex_digit_not_special(1)[OF assms(2)]
  by (simp add: strip_def)

lemma hexToRGB_cong_strip:
  assumes "strip ''#'' h = strip ''#'' h'"
  shows "hexToRGB h = hexToRGB h'"
proof -
  have "channel h = channel h'"
    using assms by (intro ext) (simp add: channel_def)
  then show ?thesis by (simp only: hexToRGB_def)
qed

lemma hexToRGB_stripped:
  assumes "strip ''#'' h = [a, b, c, d, e, f]"
    and "digit_value a < 16" and "digit_value b < 16" and "digit_value c < 16"
    and "digit_value d < 16" and "digit_value e < 16" and "digit_value f < 16"
  shows "hexToRGB h =
           Inr [real (16 * digit_value a + digit_value b) / 255,
                real (16 * digit_value c + digit_value d) / 255,
                real (16 * digit_value e + digit_value f) / 255]"
proof -
  have "channel h 0 = Inr (real (16 * digit_value a + digit_value b) / 255)"
    using assms by (simp add: channel_def slice_def int16_two_digits)
  moreover have "channel h 2 = Inr (real (16 * digit_value c + digit_value d) / 255)"
    using assms by (simp add: channel_def slice_def int16_two_digits)
  moreover have "channel h 4 = Inr (real (16 * digit_value e + digit_value f) / 255)"
    using assms by (simp add: channel_def slice_def int16_two_digits)
  ultimately show ?thesis by (simp add: hexToRGB_def)
qed

lemma channel_bounds:
  assumes "x < 16" and "y < (16::nat)"
  shows "0 \<le> real (16 * x + y) / 255 \<and> real (16 * x + y) / 255 \<le> 1"
proof -
  have "16 * x + y \<le> 255" using assms by arith
  then have "real (16 * x + y) \<le> 255" by (metis of_nat_le_iff of_nat_numeral)
  then show ?thesis by simp
qed

lemma six_elements:
  assumes "length xs = 6"
  obtains a b c d e f where "xs = [a, b, c, d, e, f]"
  using assms by (auto simp: eval_nat_numeral length_Suc_conv)

lemma collect_error:
  assumes "i \<in> set js" and "f i = Inl e"
  shows "collect f js = Inl ValueError"
  using assms
proof (induction js)
  case Nil
  then show ?case by simp
next
  case (Cons j js)
  show ?case
  proof (cases "f j")
    case (Inl e')
    then show ?thesis by (cases e') simp
  next
    case (Inr x)
    with Cons have "collect f js = Inl ValueError" by auto
    with Inr show ?thesis by simp
  qed
qed

lemma int16_empty: "int16 [] = Inl ValueError"
  by (simp add: int16_def)

text \<open>
  Claim C1. For a string made of \<open>#\<close> and exactly six hexadecimal digits, \<open>hexToRGB\<close>
  returns a list of three numbers: the value of digits 1-2, of digits 3-4 and of digits
  5-6, each divided by 255; each of the three lies between 0 and 1.
\<close>

theorem hexToRGB_hash_six_digits:
  assumes "length ds = 6" and "\<forall>c\<in>set ds. digit_value c < 16"
  shows "hexToRGB (CHR ''#'' # ds) =
           Inr [real (16 * digit_value (ds ! 0) + digit_value (ds ! 1)) / 255,
                real (16 * digit_value (ds ! 2) + digit_value (ds ! 3)) / 255,
                real (16 * digit_value (ds ! 4) + digit_value (ds ! 5)) / 255]
         \<and> (\<exists>r g b. hexToRGB (CHR ''#'' # ds) = Inr [r, g, b]
               \<and> 0 \<le> r \<and> r \<le> 1 \<and> 0 \<le> g \<and> g \<le> 1 \<and> 0 \<le> b \<and> b \<le> 1)"
proof -
  from assms(1) obtain a b c d e f where ds: "ds = [a, b, c, d, e, f]"
    by (rule six_elements)
  with assms(2) have hex: "digit_value a < 16" "digit_value b < 16" "digit_value c < 16"
    "digit_value d < 16" "digit_value e < 16" "digit_value f < 16"
    by simp_all
  define r where "r = real (16 * digit_value a + digit_value b) / 255"
  define g where "g = real (16 * digit_value c + digit_value d) / 255"
  define bl where "bl = real (16 * digit_value e + digit_value f) / 255"
  have "strip ''#'' (CHR ''#'' # ds) = [a, b, c, d, e, f]"
    unfolding ds strip_hash_Cons using hex(1,6) by (rule strip_hash_six)
  then have val: "hexToRGB (CHR ''#'' # ds) = Inr [r, g, bl]"
    unfolding r_def g_def bl_def using hex by (rule hexToRGB_stripped)
  have bounds: "0 \<le> r \<and> r \<le> 1" "0 \<le> g \<and> g \<le> 1" "0 \<le> bl \<and> bl \<le> 1"
    unfolding r_def g_def bl_def
    by (rule channel_bounds[OF hex(1,2)], rule channel_bounds[OF hex(3,4)],
        rule channel_bounds[OF hex(5,6)])
  have "hexToRGB (CHR ''#'' # ds) =
           Inr [real (16 * digit_value (ds ! 0) + digit_value (ds ! 1)) / 255,
                real (16 * digit_value (ds ! 2) + digit_value (ds ! 3)) / 255,
                real (16 * digit_value (ds ! 4) + digit_value (ds ! 5)) / 255]"
    using val by (simp add: ds r_def g_def bl_def)
  moreover have "\<exists>r g b. hexToRGB (CHR ''#'' # ds) = Inr [r, g, b]
               \<and> 0 \<le> r \<and> r \<le> 1 \<and> 0 \<le> g \<and> g \<le> 1 \<and> 0 \<le> b \<and> b \<le> 1"
    using val bounds by blast
  ultimately show ?thesis by (rule conjI)
qed

theorem hexToRGB_hash_six_digits_witness:
  "length ''ff5700'' = 6 \<and> list_all (\<lambda>c. digit_value c < 16) ''ff5700''
   \<and> hexToRGB ''#ff5700'' = Inr [1, 87 / 255, 0]"
  using hexToRGB_hash_six_digits[of "''ff5700''"] by (simp add: digit_value_def)

text \<open>
  Claim C8. For a string \<open>s\<close> of six hexadecimal digits, a \<open>#\<close> in front of it or behind
  it changes nothing: \<open>hexToRGB('#' + s) = hexToRGB(s) = hexToRGB(s + '#')\<close>, and this
  common result is a colour triple.
\<close>

theorem hexToRGB_ignores_hash:
  assumes "length s = 6" and "\<forall>c\<in>set s. digit_value c < 16"
  shows "hexToRGB (CHR ''#'' # s) = hexToRGB s \<and> hexToRGB s = hexToRGB (s @ ''#'')
         \<and> (\<exists>r g b. hexToRGB s = Inr [r, g, b])"
proof -
  from assms(1) obtain a b c d e f where s: "s = [a, b, c, d, e, f]"
    by (rule six_elements)
  with assms(2) have hex: "digit_value a < 16" "digit_value b < 16" "digit_value c < 16"
    "digit_value d < 16" "digit_value e < 16" "digit_value f < 16"
    by simp_all
  have "strip ''#'' s = [a, b, c, d, e, f]"
    unfolding s using hex(1,6) by (rule strip_hash_six)
  then have "\<exists>r g b. hexToRGB s = Inr [r, g, b]"
    using hexToRGB_stripped[OF _ hex] by blast
  moreover have "hexToRGB (CHR ''#'' # s) = hexToRGB s"
    by (rule hexToRGB_cong_strip) (rule strip_hash_Cons)
  moreover have "hexToRGB s = hexToRGB (s @ ''#'')"
    by (rule hexToRGB_cong_strip) (rule strip_hash_snoc[symmetric])
  ultimately show ?thesis by blast
qed

theorem hexToRGB_ignores_hash_witness:
  "length ''109ad2'' = 6 \<and> list_all (\<lambda>c. digit_value c < 16) ''109ad2''
   \<and> hexToRGB ''#109ad2'' = hexToRGB ''109ad2'' \<and> hexToRGB ''109ad2'' = hexToRGB ''109ad2#''"
  using hexToRGB_ignores_hash[of "''109ad2''"] by (simp add: digit_value_def)

text \<open>
  Claim C9. When the string left after stripping \<open>#\<close> from both ends has fewer than five
  characters, the slice \<open>[4:6]\<close> is empty and the call raises \<open>ValueError\<close> instead of
  returning a triple.
\<close>

theorem hexToRGB_short_raises:
  assumes "length (strip ''#'' h) < 5"
  shows "slice 4 6 (strip ''#'' h) = [] \<and> hexToRGB h = Inl ValueError"
proof -
  have empty: "slice 4 6 (strip ''#'' h) = []"
    using assms by (simp add: slice_def)
  then have "channel h 4 = Inl ValueError"
    by (simp add: channel_def int16_empty)
  then have "hexToRGB h = Inl ValueError"
    unfolding hexToRGB_def by (rule collect_error[rotated]) simp
  with empty show ?thesis by simp
qed

theorem hexToRGB_short_raises_witness:
  "length (strip ''#'' ''#12ab#'') < 5 \<and> slice 4 6 (strip ''#'' ''#12ab#'') = [] \<and> hexToRGB ''#12ab#'' = Inl ValueError"
  using hexToRGB_short_raises[of "''#12ab#''"] by (simp add: strip_def)

section \<open>Properties of \<open>sphereToCart\<close>\<close>



section \<open>Properties of the isovalue callback and of the contour filters\<close>

text \<open>
  Claim C4. For every value \<open>v\<close>, \<open>iso(v)\<close> assigns the one-element list \<open>[v]\<close> to the
  \<open>Isosurfaces\<close> property of the contour filter and then asks for exactly one pipeline
  update of that filter. Every other property, of the contour filter and of every other
  proxy (pipeline objects, render view, lights), keeps its value, no proxy is created, and
  the call returns \<open>None\<close>.
\<close>

theorem iso_frame:
  "iso c v s =
     (PyNone, s\<lparr>props := (props s)((c, ''Isosurfaces'') \<mapsto> PyList [v])\<rparr>,
      [SetAttr c ''Isosurfaces'' (PyList [v]), UpdatePipelineCall c])
   \<and> props (fst (snd (iso c v s))) (c, ''Isosurfaces'') = Some (PyList [v])
   \<and> (\<forall>k. k \<noteq> (c, ''Isosurfaces'') \<longrightarrow> props (fst (snd (iso c v s))) k = props s k)
   \<and> next_ref (fst (snd (iso c v s))) = next_ref s"
  by (simp add: iso_def setattr_def UpdatePipeline_def)

theorem iso_frame_witness:
  "iso 2 (PyFloat (Finite 1627)) \<lparr>props = [(2, ''ContourBy'') \<mapsto> PyStr ''CTHead'', (1, ''Background'') \<mapsto> PyInt 0], next_ref = 3\<rparr> =
     (PyNone,
      \<lparr>props = [(2, ''ContourBy'') \<mapsto> PyStr ''CTHead'', (1, ''Background'') \<mapsto> PyInt 0,
                (2, ''Isosurfaces'') \<mapsto> PyList [PyFloat (Finite 1627)]], next_ref = 3\<rparr>,
      [SetAttr 2 ''Isosurfaces'' (PyList [PyFloat (Finite 1627)]), UpdatePipelineCall 2])
   \<and> (2::nat, ''ContourBy'') \<noteq> (2, ''Isosurfaces'')
   \<and> props (fst (snd (iso 2 (PyFloat (Finite 1627)) \<lparr>props = [(2, ''ContourBy'') \<mapsto> PyStr ''CTHead'', (1, ''Background'') \<mapsto> PyInt 0], next_ref = 3\<rparr>))) (2, ''ContourBy'') = Some (PyStr ''CTHead'')"
  using iso_frame[of 2 "PyFloat (Finite 1627)" "\<lparr>props = [(2, ''ContourBy'') \<mapsto> PyStr ''CTHead'', (1, ''Background'') \<mapsto> PyInt 0], next_ref = 3\<rparr>"]
  by simp

text \<open>
  Claim C10. Calling \<open>iso(v)\<close> a second time, in the session the first call left, leaves
  that session exactly as it is; the second call also returns the same and sends the same
  two requests as the first.
\<close>

theorem iso_idempotent:
  "iso c v (fst (snd (iso c v s))) = iso c v s"
  by (simp add: iso_def setattr_def UpdatePipeline_def)

text \<open>
  Claim C6. Each of the three places that assign \<open>Isosurfaces\<close> (the contour of the CT
  volume, the callback \<open>iso\<close>, the contour of the wavelet in the second notebook) assigns
  it once, and the value is a list of one element: 1627, the callback's argument, 157.
\<close>

theorem isosurfaces_one_element:
  "assigned ''Isosurfaces'' (snd (snd (head_contour trivprod s))) = [PyList [PyInt 1627]]
   \<and> assigned ''Isosurfaces'' (snd (snd (iso c v s))) = [PyList [v]]
   \<and> assigned ''Isosurfaces'' (snd (snd (wavelet_contour wavelet s))) = [PyList [PyInt 157]]"
  by (simp add: head_contour_def wavelet_contour_def iso_def Contour_def setattr_def
      UpdatePipeline_def Let_def)

section \<open>Properties of the light callbacks\<close>

text \<open>
  \<open>sphereToCart\<close> on floats: products of a sine and a cosine stay in range, so the call
  returns exactly when neither \<open>pi*t\<close> nor \<open>pi*p\<close> is an infinity, and on finite angles it
  then returns the list the function has over the reals.
\<close>

lemma float_of_real_in_range:
  assumes "\<bar>x\<bar> < 2 ^ 1024 - 2 ^ 970"
  shows "float_of_real x = Finite x"
  using assms by (simp add: float_of_real_def abs_less_iff)

lemma float_of_real_cases:
  "float_of_real x = Finite x \<or> float_of_real x = PosInf \<or> float_of_real x = NegInf"
  by (simp add: float_of_real_def)

lemma float_of_sin_cos: "float_of_real (sin a * cos b) = Finite (sin a * cos b)"
proof -
  have "\<bar>sin a\<bar> * \<bar>cos b\<bar> \<le> 1 * 1"
    by (intro mult_mono) simp_all
  then have "\<bar>sin a * cos b\<bar> < 2 ^ 1024 - 2 ^ 970"
    by (simp add: abs_mult)
  then show ?thesis by (rule float_of_real_in_range)
qed

lemma float_of_cos_cos: "float_of_real (cos a * cos b) = Finite (cos a * cos b)"
proof -
  have "\<bar>cos a\<bar> * \<bar>cos b\<bar> \<le> 1 * 1"
    by (intro mult_mono) simp_all
  then have "\<bar>cos a * cos b\<bar> < 2 ^ 1024 - 2 ^ 970"
    by (simp add: abs_mult)
  then show ?thesis by (rule float_of_real_in_range)
qed

lemma sphereToCart_float_radians:
  assumes "fmul (Finite pi) t = Finite a" and "fmul (Finite pi) p = Finite b"
  shows "sphereToCart_float t p =
           Inr [Finite (sin (b / 180) * cos (a / 180)), Finite (sin (a / 180)),
                Finite (cos (b / 180) * cos (a / 180))]"
  using assms
  by (simp add: sphereToCart_float_def float_of_sin_cos float_of_cos_cos)

lemma sphereToCart_float_in_range:
  assumes "\<bar>pi * t\<bar> < 2 ^ 1024 - 2 ^ 970" and "\<bar>pi * p\<bar> < 2 ^ 1024 - 2 ^ 970"
  shows "sphereToCart_float (Finite t) (Finite p) = Inr (map Finite (sphereToCart t p))"
proof -
  have "fmul (Finite pi) (Finite t) = Finite (pi * t)"
    and "fmul (Finite pi) (Finite p) = Finite (pi * p)"
    using assms by (simp_all add: float_of_real_in_range)
  then show ?thesis
    by (simp add: sphereToCart_float_radians sphereToCart_def)
qed

lemma sphereToCart_float_finite:
  assumes "sphereToCart_float (Finite t) (Finite p) = Inr pos"
  shows "pos = map Finite (sphereToCart t p)"
proof -
  have t: "fmul (Finite pi) (Finite t) = Finite (pi * t)"
    using float_of_real_cases[of "pi * t"] assms
    by (auto simp: sphereToCart_float_def split: sum.splits)
  have p: "fmul (Finite pi) (Finite p) = Finite (pi * p)"
    using float_of_real_cases[of "pi * p"] assms
    by (auto simp: sphereToCart_float_def split: sum.splits)
  from assms show ?thesis
    unfolding sphereToCart_float_radians[OF t p] by (simp add: sphereToCart_def)
qed

lemma sphereToCart_float_small:
  assumes "\<bar>t\<bar> \<le> 360" and "\<bar>p\<bar> \<le> 360"
  shows "sphereToCart_float (Finite t) (Finite p) = Inr (map Finite (sphereToCart t p))"
proof -
  have "\<bar>pi * x\<bar> < 2 ^ 1024 - 2 ^ 970" if "\<bar>x\<bar> \<le> 360" for x :: real
  proof -
    have "\<bar>pi * x\<bar> = pi * \<bar>x\<bar>" by (simp add: abs_mult)
    also have "\<dots> \<le> 4 * 360"
      using that pi_less_4 by (intro mult_mono) simp_all
    also have "\<dots> < 2 ^ 1024 - 2 ^ 970" by simp
    finally show ?thesis .
  qed
  with assms show ?thesis by (simp add: sphereToCart_float_in_range)
qed

lemma sphereToCart_float_overflow:
  "sphereToCart_float (Finite (2 ^ 1023)) (Finite 0) = Inl ValueError"
proof -
  have "(2::real) ^ 1024 - 2 ^ 970 \<le> 2 * 2 ^ 1023" by simp
  also have "\<dots> \<le> pi * 2 ^ 1023"
    using pi_ge_two by (intro mult_right_mono) simp_all
  finally have "fmul (Finite pi) (Finite (2 ^ 1023)) = PosInf"
    by (simp add: float_of_real_def)
  then show ?thesis by (simp add: sphereToCart_float_def float_of_real_def)
qed

text \<open>Colours of the notebook's own calls, and the short form \<open>#fff\<close> of a colour picker.\<close>

lemma hexToRGB_white: "hexToRGB ''#ffffff'' = Inr [1, 1, 1]"
proof -
  have "strip ''#'' ''#ffffff'' = ''ffffff''"
    by (simp add: strip_def)
  then have "hexToRGB ''#ffffff'' =
           Inr [real (16 * digit_value CHR ''f'' + digit_value CHR ''f'') / 255,
                real (16 * digit_value CHR ''f'' + digit_value CHR ''f'') / 255,
                real (16 * digit_value CHR ''f'' + digit_value CHR ''f'') / 255]"
    by (rule hexToRGB_stripped) (simp_all add: digit_value_def)
  then show ?thesis by (simp add: digit_value_def)
qed

lemma hexToRGB_red: "hexToRGB ''#ff0000'' = Inr [1, 0, 0]"
proof -
  have "strip ''#'' ''#ff0000'' = ''ff0000''"
    by (simp add: strip_def)
  then have "hexToRGB ''#ff0000'' =
           Inr [real (16 * digit_value CHR ''f'' + digit_value CHR ''f'') / 255,
                real (16 * digit_value CHR ''0'' + digit_value CHR ''0'') / 255,
                real (16 * digit_value CHR ''0'' + digit_value CHR ''0'') / 255]"
    by (rule hexToRGB_stripped) (simp_all add: digit_value_def)
  then show ?thesis by (simp add: digit_value_def)
qed

lemma hexToRGB_three_digits: "hexToRGB ''#fff'' = Inl ValueError"
proof -
  have "channel ''#fff'' 4 = Inl ValueError"
    by (simp add: channel_def strip_def slice_def int16_empty)
  then show ?thesis
    unfolding hexToRGB_def by (rule collect_error[rotated]) simp
qed

text \<open>
  Claim C5, as the code has it. When the helper calls return (\<open>sphereToCart(theta, phi)\<close>
  and \<open>hexToRGB(col)\<close> for \<open>setDirLight\<close>, \<open>hexToRGB(col)\<close> for \<open>setPtLight\<close>), the callback
  assigns exactly three properties of the light it is given: \<open>Position\<close> (the result of
  \<open>sphereToCart(theta, phi)\<close>, which for finite angles is the list \<open>sphereToCart\<close> has over
  the reals; or \<open>[x, y, z]\<close>), \<open>DiffuseColor\<close> (the triple of \<open>hexToRGB(col)\<close>) and
  \<open>Intensity\<close> (\<open>lum\<close>), in this order; every other property of that light (\<open>Type\<close>,
  \<open>Enable\<close>, \<open>ConeAngle\<close>, ...) and of every other proxy keeps its value.
\<close>

theorem light_callbacks_frame:
  "(sphereToCart_float theta phi = Inr pos \<and> hexToRGB col = Inr rgb \<longrightarrow>
      setDirLight light theta phi col lum s =
        (Inr PyNone,
         s\<lparr>props := (props s)
              ((light, ''Position'') \<mapsto> PyList (map PyFloat pos),
               (light, ''DiffuseColor'') \<mapsto> PyList (map (\<lambda>x. PyFloat (Finite x)) rgb),
               (light, ''Intensity'') \<mapsto> lum)\<rparr>,
         [SetAttr light ''Position'' (PyList (map PyFloat pos)),
          SetAttr light ''DiffuseColor'' (PyList (map (\<lambda>x. PyFloat (Finite x)) rgb)),
          SetAttr light ''Intensity'' lum])
      \<and> (\<forall>t p. theta = Finite t \<and> phi = Finite p \<longrightarrow> pos = map Finite (sphereToCart t p))
      \<and> (\<forall>k. k \<notin> {(light, ''Position''), (light, ''DiffuseColor''), (light, ''Intensity'')} \<longrightarrow>
             props (fst (snd (setDirLight light theta phi col lum s))) k = props s k))
   \<and> (hexToRGB col = Inr rgb \<longrightarrow>
      setPtLight light x y z col lum s =
        (Inr PyNone,
         s\<lparr>props := (props s)
              ((light, ''Position'') \<mapsto> PyList [x, y, z],
               (light, ''DiffuseColor'') \<mapsto> PyList (map (\<lambda>x. PyFloat (Finite x)) rgb),
               (light, ''Intensity'') \<mapsto> lum)\<rparr>,
         [SetAttr light ''Position'' (PyList [x, y, z]),
          SetAttr light ''DiffuseColor'' (PyList (map (\<lambda>x. PyFloat (Finite x)) rgb)),
          SetAttr light ''Intensity'' lum])
      \<and> (\<forall>k. k \<notin> {(light, ''Position''), (light, ''DiffuseColor''), (light, ''Intensity'')} \<longrightarrow>
             props (fst (snd (setPtLight light x y z col lum s))) k = props s k))"
proof (intro conjI impI)
  assume h: "sphereToCart_float theta phi = Inr pos \<and> hexToRGB col = Inr rgb"
  then show "setDirLight light theta phi col lum s =
        (Inr PyNone,
         s\<lparr>props := (props s)
              ((light, ''Position'') \<mapsto> PyList (map PyFloat pos),
               (light, ''DiffuseColor'') \<mapsto> PyList (map (\<lambda>x. PyFloat (Finite x)) rgb),
               (light, ''Intensity'') \<mapsto> lum)\<rparr>,
         [SetAttr light ''Position'' (PyList (map PyFloat pos)),
          SetAttr light ''DiffuseColor'' (PyList (map (\<lambda>x. PyFloat (Finite x)) rgb)),
          SetAttr light ''Intensity'' lum])"
    by (simp add: setDirLight_def setattr_def)
  from h show "\<forall>t p. theta = Finite t \<and> phi = Finite p \<longrightarrow> pos = map Finite (sphereToCart t p)"
    by (auto dest: sphereToCart_float_finite)
  from h show "\<forall>k. k \<notin> {(light, ''Position''), (light, ''DiffuseColor''), (light, ''Intensity'')} \<longrightarrow>
             props (fst (snd (setDirLight light theta phi col lum s))) k = props s k"
    by (simp add: setDirLight_def setattr_def)
next
  assume h: "hexToRGB col = Inr rgb"
  then show "setPtLight light x y z col lum s =
        (Inr PyNone,
         s\<lparr>props := (props s)
              ((light, ''Position'') \<mapsto> PyList [x, y, z],
               (light, ''DiffuseColor'') \<mapsto> PyList (map (\<lambda>x. PyFloat (Finite x)) rgb),
               (light, ''Intensity'') \<mapsto> lum)\<rparr>,
         [SetAttr light ''Position'' (PyList [x, y, z]),
          SetAttr light ''DiffuseColor'' (PyList (map (\<lambda>x. PyFloat (Finite x)) rgb)),
          SetAttr light ''Intensity'' lum])"
    by (simp add: setPtLight_def setattr_def)
  from h show "\<forall>k. k \<notin> {(light, ''Position''), (light, ''DiffuseColor''), (light, ''Intensity'')} \<longrightarrow>
             props (fst (snd (setPtLight light x y z col lum s))) k = props s k"
    by (simp add: setPtLight_def setattr_def)
qed

theorem light_callbacks_frame_witness:
  "sphereToCart_float (Finite 43.6) (Finite 26.9) = Inr (map Finite (sphereToCart 43.6 26.9))
   \<and> hexToRGB ''#ffffff'' = Inr [1, 1, 1]
   \<and> setDirLight 3 (Finite 43.6) (Finite 26.9) ''#ffffff'' (PyFloat (Finite 10))
        \<lparr>props = [(3, ''Type'') \<mapsto> PyStr ''Directional''], next_ref = 4\<rparr> =
       (Inr PyNone,
        \<lparr>props = [(3, ''Type'') \<mapsto> PyStr ''Directional'',
                  (3, ''Position'') \<mapsto> PyList (map PyFloat (map Finite (sphereToCart 43.6 26.9))),
                  (3, ''DiffuseColor'') \<mapsto>
                    PyList [PyFloat (Finite 1), PyFloat (Finite 1), PyFloat (Finite 1)],
                  (3, ''Intensity'') \<mapsto> PyFloat (Finite 10)], next_ref = 4\<rparr>,
        [SetAttr 3 ''Position'' (PyList (map PyFloat (map Finite (sphereToCart 43.6 26.9)))),
         SetAttr 3 ''DiffuseColor''
           (PyList [PyFloat (Finite 1), PyFloat (Finite 1), PyFloat (Finite 1)]),
         SetAttr 3 ''Intensity'' (PyFloat (Finite 10))])
   \<and> props (fst (snd (setDirLight 3 (Finite 43.6) (Finite 26.9) ''#ffffff'' (PyFloat (Finite 10))
        \<lparr>props = [(3, ''Type'') \<mapsto> PyStr ''Directional''], next_ref = 4\<rparr>))) (3, ''Type'')
       = Some (PyStr ''Directional'')
   \<and> hexToRGB ''#ff0000'' = Inr [1, 0, 0]
   \<and> setPtLight 1 (PyFloat (Finite (- 0.12))) (PyFloat (Finite 0.09)) (PyFloat (Finite 0.24))
        ''#ff0000'' (PyFloat (Finite 0.891))
        \<lparr>props = [(1, ''ConeAngle'') \<mapsto> PyFloat (Finite 0)], next_ref = 4\<rparr> =
       (Inr PyNone,
        \<lparr>props = [(1, ''ConeAngle'') \<mapsto> PyFloat (Finite 0),
                  (1, ''Position'') \<mapsto>
                    PyList [PyFloat (Finite (- 0.12)), PyFloat (Finite 0.09), PyFloat (Finite 0.24)],
                  (1, ''DiffuseColor'') \<mapsto>
                    PyList [PyFloat (Finite 1), PyFloat (Finite 0), PyFloat (Finite 0)],
                  (1, ''Intensity'') \<mapsto> PyFloat (Finite 0.891)], next_ref = 4\<rparr>,
        [SetAttr 1 ''Position''
           (PyList [PyFloat (Finite (- 0.12)), PyFloat (Finite 0.09), PyFloat (Finite 0.24)]),
         SetAttr 1 ''DiffuseColor''
           (PyList [PyFloat (Finite 1), PyFloat (Finite 0), PyFloat (Finite 0)]),
         SetAttr 1 ''Intensity'' (PyFloat (Finite 0.891))])
   \<and> props (fst (snd (setPtLight 1 (PyFloat (Finite (- 0.12))) (PyFloat (Finite 0.09))
        (PyFloat (Finite 0.24)) ''#ff0000'' (PyFloat (Finite 0.891))
        \<lparr>props = [(1, ''ConeAngle'') \<mapsto> PyFloat (Finite 0)], next_ref = 4\<rparr>))) (1, ''ConeAngle'')
       = Some (PyFloat (Finite 0))"
  using
    light_callbacks_frame[where col = "''#ffffff''" and rgb = "[1, 1, 1]" and light = 3
      and theta = "Finite 43.6" and phi = "Finite 26.9"
      and pos = "map Finite (sphereToCart 43.6 26.9)" and lum = "PyFloat (Finite 10)"
      and s = "\<lparr>props = [(3, ''Type'') \<mapsto> PyStr ''Directional''], next_ref = 4\<rparr>"]
    light_callbacks_frame[where col = "''#ff0000''" and rgb = "[1, 0, 0]" and light = 1
      and x = "PyFloat (Finite (- 0.12))" and y = "PyFloat (Finite 0.09)"
      and z = "PyFloat (Finite 0.24)" and lum = "PyFloat (Finite 0.891)"
      and s = "\<lparr>props = [(1, ''ConeAngle'') \<mapsto> PyFloat (Finite 0)], next_ref = 4\<rparr>"]
  by (simp add: hexToRGB_white hexToRGB_red sphereToCart_float_small)

text \<open>
  The claim does not hold for every argument tuple. With the angle \<open>2.0**1023\<close> the
  product \<open>pi*theta\<close> is an infinity, \<open>sphereToCart\<close> raises \<open>ValueError\<close> and \<open>setDirLight\<close>
  assigns nothing. With the colour \<open>#fff\<close> both callbacks raise \<open>ValueError\<close>:
  \<open>Intensity\<close> keeps its old value 1 instead of taking \<open>lum = 10\<close>, and \<open>DiffuseColor\<close>
  stays unassigned.
\<close>

theorem light_callbacks_counterexample:
  "setDirLight 3 (Finite (2 ^ 1023)) (Finite 0) ''#ffffff'' (PyFloat (Finite 10))
          \<lparr>props = [(3, ''Intensity'') \<mapsto> PyFloat (Finite 1)], next_ref = 4\<rparr>
       = (Inl ValueError, \<lparr>props = [(3, ''Intensity'') \<mapsto> PyFloat (Finite 1)], next_ref = 4\<rparr>, [])
   \<and> (fst (setDirLight 3 (Finite 90) (Finite 0) ''#fff'' (PyFloat (Finite 10))
          \<lparr>props = [(3, ''Intensity'') \<mapsto> PyFloat (Finite 1)], next_ref = 4\<rparr>) = Inl ValueError
   \<and> props (fst (snd (setDirLight 3 (Finite 90) (Finite 0) ''#fff'' (PyFloat (Finite 10))
          \<lparr>props = [(3, ''Intensity'') \<mapsto> PyFloat (Finite 1)], next_ref = 4\<rparr>))) (3, ''Intensity'')
       = Some (PyFloat (Finite 1))
   \<and> props (fst (snd (setDirLight 3 (Finite 90) (Finite 0) ''#fff'' (PyFloat (Finite 10))
          \<lparr>props = [(3, ''Intensity'') \<mapsto> PyFloat (Finite 1)], next_ref = 4\<rparr>))) (3, ''DiffuseColor'')
       = None
   \<and> fst (setPtLight 3 (PyInt 0) (PyInt 0) (PyInt 1) ''#fff'' (PyFloat (Finite 10))
          \<lparr>props = [(3, ''Intensity'') \<mapsto> PyFloat (Finite 1)], next_ref = 4\<rparr>) = Inl ValueError
   \<and> props (fst (snd (setPtLight 3 (PyInt 0) (PyInt 0) (PyInt 1) ''#fff'' (PyFloat (Finite 10))
          \<lparr>props = [(3, ''Intensity'') \<mapsto> PyFloat (Finite 1)], next_ref = 4\<rparr>))) (3, ''Intensity'')
       = Some (PyFloat (Finite 1))
   \<and> props (fst (snd (setPtLight 3 (PyInt 0) (PyInt 0) (PyInt 1) ''#fff'' (PyFloat (Finite 10))
          \<lparr>props = [(3, ''Intensity'') \<mapsto> PyFloat (Finite 1)], next_ref = 4\<rparr>))) (3, ''DiffuseColor'')
       = None)"
proof (rule conjI)
  show "setDirLight 3 (Finite (2 ^ 1023)) (Finite 0) ''#ffffff'' (PyFloat (Finite 10))
          \<lparr>props = [(3, ''Intensity'') \<mapsto> PyFloat (Finite 1)], next_ref = 4\<rparr>
       = (Inl ValueError, \<lparr>props = [(3, ''Intensity'') \<mapsto> PyFloat (Finite 1)], next_ref = 4\<rparr>, [])"
    by (simp only: setDirLight_def sphereToCart_float_overflow sum.case)
qed (simp add: setDirLight_def setPtLight_def setattr_def hexToRGB_three_digits
      sphereToCart_float_small)

section \<open>Properties of the image configuration\<close>

text \<open>
  Claim C7. With \<open>voldims = [256, 256, 113]\<close>, the image is given these dimensions; its
  extent along each axis is \<open>[0, voldims[i] - 1]\<close>, so the number of samples along each
  axis is the declared dimension; its spacing along each axis is \<open>1 / voldims[i]\<close>; its
  origin is \<open>[-0.5, -0.5, -0.5]\<close>.
\<close>

theorem vtkimg_consistent:
  "voldims = [256, 256, 113]
   \<and> Dimensions (vtkimg img) = voldims
   \<and> Extent (vtkimg img) = concat (map (\<lambda>d. [0, d - 1]) voldims)
   \<and> map (\<lambda>i. Extent (vtkimg img) ! (2 * i + 1) - Extent (vtkimg img) ! (2 * i) + 1) [0, 1, 2] = voldims
   \<and> Spacing (vtkimg img) = map (\<lambda>d. 1 / real_of_int d) voldims
   \<and> Origin (vtkimg img) = [- 0.5, - 0.5, - 0.5]"
  by (simp add: vtkimg_def voldims_def SetDimensions_def SetExtent_def SetSpacing_def
      SetOrigin_def)

end
